theory Spec2Isabelle
  imports Main
begin

section \<open>Values, errors and the execution context\<close>

text \<open>
  Data values that travel through decorator options and task arguments. Python is
  dynamically typed; the model keeps the shapes the decorators inspect: booleans,
  integers, strings, dictionaries from strings to integers (the shape of a collection
  layout), None, and \<open>PEmpty\<close> for \<^verbatim>\<open>inspect.Parameter.empty\<close>, the default of a parameter that declares
  none. Floats, functions and user objects are not data values of the model; functions
  are kept apart (see \<open>dec_arg\<close> below).
\<close>

datatype pyval =
    PNone
  | PBool bool
  | PInt int
  | PStr string
  | PDict "(string \<times> int) list"
  | PEmpty

text \<open>
  The exceptions the modelled code raises, by their Python class. \<open>TypeError\<close>,
  \<open>KeyError\<close> and \<open>AttributeError\<close> are raised by the interpreter itself (a call with a
  missing argument, a missing dictionary key, a missing attribute).
\<close>

datatype error =
    Exception string
  | PyCOMPSsException string
  | NotImplementedError
  | TypeError string
  | KeyError string
  | AttributeError string

text \<open>
  Modelled from the spec: the module \<^verbatim>\<open>pycompss.util.context\<close> is not part of the
  sources. Section 4.1 of the specification: the role is one of UNSET, SUBMITTER
  (the master) and WORKER; \<open>in_pycompss\<close> is true iff the role is not UNSET.
\<close>

datatype role = UNSET | SUBMITTER | WORKER

definition in_pycompss :: "role \<Rightarrow> bool" where
  "in_pycompss r = (r \<noteq> UNSET)"

definition in_master :: "role \<Rightarrow> bool" where
  "in_master r = (r = SUBMITTER)"

type_synonym pydict = "(string \<times> pyval) list"

text \<open>
  A Python dict is an association list with distinct keys in insertion order:
  \<^verbatim>\<open>k in d\<close> is \<open>has_key\<close>, \<^verbatim>\<open>d[k] = v\<close> is \<open>dict_set\<close> (the key keeps its place, a new key
  goes last), \<^verbatim>\<open>d.pop(k)\<close> removes the key.
\<close>

definition has_key :: "string \<Rightarrow> (string \<times> 'v) list \<Rightarrow> bool" where
  "has_key k d = (map_of d k \<noteq> None)"

fun dict_set :: "string \<Rightarrow> 'v \<Rightarrow> (string \<times> 'v) list \<Rightarrow> (string \<times> 'v) list" where
  "dict_set k v [] = [(k, v)]"
| "dict_set k v ((k', v') # d) =
     (if k' = k then (k, v) # d else (k', v') # dict_set k v d)"

definition dict_del :: "string \<Rightarrow> (string \<times> 'v) list \<Rightarrow> (string \<times> 'v) list" where
  "dict_del k d = filter (\<lambda>kv. fst kv \<noteq> k) d"

section \<open>The core element (task descriptor)\<close>

text \<open>
  \<^verbatim>\<open>class CE\<close> of \<^verbatim>\<open>runtime/task/core_element.py\<close>: six slots, each None or a value.
\<close>

record CE =
  ceSignature :: "string option"
  implSignature :: "string option"
  implConstraints :: "pydict option"
  implType :: "string option"
  implIO :: "bool option"
  implTypeArgs :: "pyval list option"

definition CE_init ::
  "string option \<Rightarrow> string option \<Rightarrow> pydict option \<Rightarrow> string option \<Rightarrow> bool option \<Rightarrow>
   pyval list option \<Rightarrow> CE" where
  "CE_init ce_signature impl_signature impl_constraints impl_type impl_io impl_type_args =
     \<lparr> ceSignature = ce_signature, implSignature = impl_signature,
       implConstraints = impl_constraints, implType = impl_type,
       implIO = impl_io, implTypeArgs = impl_type_args \<rparr>"

text \<open>\<^verbatim>\<open>CE()\<close>: every parameter of the constructor defaults to None.\<close>

definition CE_new :: CE where
  "CE_new = CE_init None None None None None None"

definition reset :: "CE \<Rightarrow> CE" where
  "reset c = c\<lparr> ceSignature := None, implSignature := None, implConstraints := None,
              implType := None, implIO := None, implTypeArgs := None \<rparr>"

definition get_ce_signature :: "CE \<Rightarrow> string option" where
  "get_ce_signature c = ceSignature c"

definition get_impl_signature :: "CE \<Rightarrow> string option" where
  "get_impl_signature c = implSignature c"

definition get_impl_constraints :: "CE \<Rightarrow> pydict option" where
  "get_impl_constraints c = implConstraints c"

definition get_impl_type :: "CE \<Rightarrow> string option" where
  "get_impl_type c = implType c"

definition get_impl_io :: "CE \<Rightarrow> bool option" where
  "get_impl_io c = implIO c"

definition get_impl_type_args :: "CE \<Rightarrow> pyval list option" where
  "get_impl_type_args c = implTypeArgs c"

text \<open>
  The setters assign the slot, whatever it held. The argument is an option because
  Python lets a caller pass None.
\<close>

definition set_ce_signature :: "string option \<Rightarrow> CE \<Rightarrow> CE" where
  "set_ce_signature ce_signature c = c\<lparr> ceSignature := ce_signature \<rparr>"

definition set_impl_signature :: "string option \<Rightarrow> CE \<Rightarrow> CE" where
  "set_impl_signature impl_signature c = c\<lparr> implSignature := impl_signature \<rparr>"

definition set_impl_constraints :: "pydict option \<Rightarrow> CE \<Rightarrow> CE" where
  "set_impl_constraints impl_constraints c = c\<lparr> implConstraints := impl_constraints \<rparr>"

definition set_impl_type :: "string option \<Rightarrow> CE \<Rightarrow> CE" where
  "set_impl_type impl_type c = c\<lparr> implType := impl_type \<rparr>"

definition set_impl_io :: "bool option \<Rightarrow> CE \<Rightarrow> CE" where
  "set_impl_io impl_io c = c\<lparr> implIO := impl_io \<rparr>"

definition set_impl_type_args :: "pyval list option \<Rightarrow> CE \<Rightarrow> CE" where
  "set_impl_type_args impl_type_args c = c\<lparr> implTypeArgs := impl_type_args \<rparr>"

section \<open>Strings\<close>

text \<open>
  \<^verbatim>\<open>sub in s\<close> on Python strings is \<open>str_contains sub s\<close>; \<^verbatim>\<open>s.split(sep)[0]\<close> for a
  non-empty separator is \<open>before_first sep s\<close>, the part of \<open>s\<close> before the first
  occurrence of \<open>sep\<close> (all of \<open>s\<close> when there is none); \<^verbatim>\<open>str(i)\<close> on an integer is
  \<open>str_int i\<close>.
\<close>

fun starts_with :: "string \<Rightarrow> string \<Rightarrow> bool" where
  "starts_with [] s = True"
| "starts_with (p # ps) [] = False"
| "starts_with (p # ps) (c # cs) = (p = c \<and> starts_with ps cs)"

fun str_contains :: "string \<Rightarrow> string \<Rightarrow> bool" where
  "str_contains sub [] = (sub = [])"
| "str_contains sub (c # cs) = (if starts_with sub (c # cs) then True else str_contains sub cs)"

fun before_first :: "string \<Rightarrow> string \<Rightarrow> string" where
  "before_first sep [] = []"
| "before_first sep (c # cs) =
     (if starts_with sep (c # cs) then [] else c # before_first sep cs)"

definition digit_char :: "nat \<Rightarrow> char" where
  "digit_char d = ''0123456789'' ! d"

fun str_nat :: "nat \<Rightarrow> string" where
  "str_nat n = (if n < 10 then [digit_char n] else str_nat (n div 10) @ [digit_char (n mod 10)])"

declare str_nat.simps [simp del]

definition str_int :: "int \<Rightarrow> string" where
  "str_int i = (if i < 0 then CHR ''-'' # str_nat (nat (- i)) else str_nat (nat i))"

text \<open>
  \<^verbatim>\<open>str(v)\<close> on a data value. The text of a dictionary is Python's for keys without
  quotes, backslashes or control characters.
\<close>

fun dict_items_str :: "(string \<times> int) list \<Rightarrow> string" where
  "dict_items_str [] = []"
| "dict_items_str [(k, v)] = [CHR 0x27] @ k @ [CHR 0x27] @ '': '' @ str_int v"
| "dict_items_str ((k, v) # kv # rest) =
     [CHR 0x27] @ k @ [CHR 0x27] @ '': '' @ str_int v @ '', '' @ dict_items_str (kv # rest)"

fun py_str :: "pyval \<Rightarrow> string" where
  "py_str PNone = ''None''"
| "py_str (PBool b) = (if b then ''True'' else ''False'')"
| "py_str (PInt i) = str_int i"
| "py_str (PStr s) = s"
| "py_str (PDict d) = ''{'' @ dict_items_str d @ ''}''"
| "py_str PEmpty = ''<class '' @ [CHR 0x27] @ ''inspect._empty'' @ [CHR 0x27] @ ''>''"

section \<open>Call-time keyword arguments and task functions\<close>

text \<open>
  A decorator's positional argument is a name or a function. A transform function takes
  the value and its own keyword arguments, and may raise.
\<close>

datatype dec_arg =
    NameArg string
  | FuncArg "pyval \<Rightarrow> pydict \<Rightarrow> error + pyval"

text \<open>\<^verbatim>\<open>DTObject.extract()\<close>: the triple of parameter name, function and keyword arguments.\<close>

type_synonym dto = "dec_arg \<times> dec_arg \<times> pydict"

definition DTObject_init :: "dec_arg \<Rightarrow> dec_arg \<Rightarrow> pydict \<Rightarrow> dto" where
  "DTObject_init param_name func func_kwargs = (param_name, func, func_kwargs)"

definition dto_extract :: "dto \<Rightarrow> dec_arg \<times> dec_arg \<times> pydict" where
  "dto_extract d = d"

text \<open>
  What a call may pass under the reserved keyword \<^verbatim>\<open>dt\<close>: one \<^verbatim>\<open>DTObject\<close>, a list of
  them, or some other value.
\<close>

datatype dt_kw = DTSingle dto | DTMany "dto list" | DTOther pyval

text \<open>
  The \<^verbatim>\<open>**kwargs\<close> of a call to a decorated function. The two reserved keys whose values
  are not data have their own slots: \<open>kw_core_element\<close> is \<^verbatim>\<open>kwargs[CORE_ELEMENT_KEY]\<close>
  (the descriptor an outer decorator passes down) and \<open>kw_dt\<close> is \<^verbatim>\<open>kwargs["dt"]\<close>; a slot
  that is None is a key that is absent. \<open>kw_entries\<close> holds every other key.
\<close>

record call_kwargs =
  kw_entries :: pydict
  kw_core_element :: "CE option"
  kw_dt :: "dt_kw option"

text \<open>
  A user function: the parameters of its signature in order, each with its declared
  default if it has one (\<^verbatim>\<open>inspect.signature\<close>), and what a call returns or raises.
\<close>

record user_fn =
  fn_params :: "(string \<times> pyval option) list"
  fn_body :: "pyval list \<Rightarrow> call_kwargs \<Rightarrow> error + pyval"

section \<open>The constraint decorator\<close>

text \<open>
  Modelled from the spec: the base class \<^verbatim>\<open>PyCOMPSsDecorator\<close> is not part of the sources.
  Its constructor stores the decorator's arguments, reads the scope from the execution
  context, and starts the registration flag at false (section 3, Annotation
  Registration Flag: false until the descriptor has been configured once).
\<close>

record constraint_self =
  c_args :: "pyval list"
  c_kwargs :: pydict
  c_scope :: bool
  c_registered :: bool
  c_module :: "string option"

definition Constraint_init :: "role \<Rightarrow> pyval list \<Rightarrow> pydict \<Rightarrow> constraint_self" where
  "Constraint_init ctx args kwargs =
     \<lparr> c_args = args, c_kwargs = kwargs, c_scope = in_pycompss ctx,
       c_registered = False, c_module = None \<rparr>"

text \<open>
  Modelled from the spec: \<^verbatim>\<open>pycompss.api.dummy.constraint\<close> is not part of the sources.
  Section 4.2, step 1: the no-op variant of the annotation returns the result of the
  wrapped function, which still executes locally.
\<close>

definition dummy_constraint ::
  "pyval list \<Rightarrow> pydict \<Rightarrow> ('a \<Rightarrow> 'k \<Rightarrow> error + 'r) \<Rightarrow> 'a \<Rightarrow> 'k \<Rightarrow> error + 'r" where
  "dummy_constraint dargs dkwargs func args kwargs = func args kwargs"

text \<open>
  \<^verbatim>\<open>Constraint.__call__.constrained_f\<close>. The state is the decorator object and the
  module-level \<^verbatim>\<open>current_core_element\<close> of \<^verbatim>\<open>pycompss.api.task\<close>; \<open>modl\<close> is what
  \<^verbatim>\<open>get_module(func)\<close> returns. The wrapped function is a function of its arguments;
  \<^verbatim>\<open>keep_arguments\<close> hands it the arguments as they are.
\<close>

definition constrained_f ::
  "string \<Rightarrow> role \<Rightarrow> ('a \<Rightarrow> 'k \<Rightarrow> error + 'r) \<Rightarrow> 'a \<Rightarrow> 'k \<Rightarrow> constraint_self \<times> CE \<Rightarrow>
   (error + 'r) \<times> constraint_self \<times> CE" where
  "constrained_f modl ctx func args kwargs st =
     (case st of (self, cce) \<Rightarrow>
        if \<not> c_scope self then
          (dummy_constraint (c_args self) (c_kwargs self) func args kwargs, self, cce)
        else if in_master ctx then
          (let self1 = self\<lparr> c_module := Some modl \<rparr> in
           if \<not> c_registered self1 then
             (func args kwargs, self1\<lparr> c_registered := True \<rparr>,
              set_impl_constraints (Some (c_kwargs self1)) cce)
           else (func args kwargs, self1, cce))
        else (func args kwargs, self, cce))"

text \<open>The state after a sequence of calls, each with its own arguments.\<close>

fun constrained_calls ::
  "string \<Rightarrow> role \<Rightarrow> ('a \<Rightarrow> 'k \<Rightarrow> error + 'r) \<Rightarrow> ('a \<times> 'k) list \<Rightarrow> constraint_self \<times> CE \<Rightarrow>
   constraint_self \<times> CE" where
  "constrained_calls modl ctx func [] st = st"
| "constrained_calls modl ctx func ((args, kwargs) # calls) st =
     constrained_calls modl ctx func calls (snd (constrained_f modl ctx func args kwargs st))"

section \<open>The MPI decorator\<close>

definition MANDATORY_ARGUMENTS :: "string set" where
  "MANDATORY_ARGUMENTS = {''runner''}"

definition SUPPORTED_ARGUMENTS :: "string set" where
  "SUPPORTED_ARGUMENTS = {''binary'', ''processes'', ''working_dir'', ''binary'', ''runner'',
     ''flags'', ''scale_by_cu'', ''fail_by_exit_value''}"

definition DEPRECATED_ARGUMENTS :: "string set" where
  "DEPRECATED_ARGUMENTS = {''computing_nodes'', ''computingNodes'', ''workingDir''}"

text \<open>
  The decorator object: the slot \<^verbatim>\<open>task_type\<close> of \<^verbatim>\<open>MPI\<close> and the attributes of the base
  class (\<open>core_element_configured\<close> is the registration flag).
\<close>

record mpi_self =
  task_type :: string
  mpi_args :: "pyval list"
  mpi_kwargs :: pydict
  mpi_scope :: bool
  core_element_configured :: bool

text \<open>
  The first loop of \<^verbatim>\<open>MPI.__init__\<close>: it counts the keys that contain \<^verbatim>\<open>_layout\<close> and adds
  each of them to the module-level set \<^verbatim>\<open>SUPPORTED_ARGUMENTS\<close>.
\<close>

fun layout_scan :: "string list \<Rightarrow> nat \<Rightarrow> string set \<Rightarrow> nat \<times> string set" where
  "layout_scan [] layout_nums supported = (layout_nums, supported)"
| "layout_scan (key # keys) layout_nums supported =
     (if str_contains ''_layout'' key
      then layout_scan keys (layout_nums + 1) (insert key supported)
      else layout_scan keys layout_nums supported)"

text \<open>
  \<^verbatim>\<open>MPI.__init__\<close>. \<^verbatim>\<open>check_arguments\<close> (of \<^verbatim>\<open>pycompss.util.arguments\<close>) and
  \<^verbatim>\<open>__process_computing_nodes__\<close> (of the base class) are not part of the sources and are
  parameters: the first returns the error it raises, if any; the second returns the
  decorator's options as it leaves them, or raises. The result carries the module-level
  set \<^verbatim>\<open>SUPPORTED_ARGUMENTS\<close> as the constructor leaves it.
\<close>

definition MPI_init ::
  "(string set \<Rightarrow> string set \<Rightarrow> string set \<Rightarrow> string list \<Rightarrow> string \<Rightarrow> error option) \<Rightarrow>
   (string \<Rightarrow> pydict \<Rightarrow> error + pydict) \<Rightarrow> role \<Rightarrow> string set \<Rightarrow> pyval list \<Rightarrow> pydict \<Rightarrow>
   (error + mpi_self) \<times> string set" where
  "MPI_init check_arguments process_computing_nodes ctx supported args kwargs =
     (let decorator_name = ''@'' @ ''mpi'';
          self = \<lparr> task_type = ''mpi'', mpi_args = args, mpi_kwargs = kwargs,
                   mpi_scope = in_pycompss ctx, core_element_configured = False \<rparr>
      in if mpi_scope self then
           (case layout_scan (map fst (mpi_kwargs self)) 0 supported of
              (layout_nums, supported1) \<Rightarrow>
                if layout_nums > 1 then
                  (Inl (Exception ''More than one layout definition is not yet supported!''),
                   supported1)
                else
                  (case check_arguments MANDATORY_ARGUMENTS DEPRECATED_ARGUMENTS
                          (supported1 \<union> DEPRECATED_ARGUMENTS) (map fst kwargs) decorator_name of
                     Some e \<Rightarrow> (Inl e, supported1)
                   | None \<Rightarrow>
                       (case process_computing_nodes decorator_name (mpi_kwargs self) of
                          Inl e \<Rightarrow> (Inl e, supported1)
                        | Inr kw1 \<Rightarrow>
                            (Inr (self\<lparr> mpi_kwargs :=
                                    (if \<not> has_key ''processes'' kw1
                                     then dict_set ''processes'' (PInt 1) kw1 else kw1) \<rparr>),
                             supported1))))
         else (Inr self, supported))"

text \<open>
  One of \<^verbatim>\<open>block_count\<close>, \<^verbatim>\<open>block_length\<close>, \<^verbatim>\<open>stride\<close> of a collection layout:
  \<^verbatim>\<open>layout[field] if field in layout else -1\<close>. On a string \<^verbatim>\<open>in\<close> is the substring test
  and the subscript raises; on the other values \<^verbatim>\<open>in\<close> raises.
\<close>

definition layout_get :: "string \<Rightarrow> pyval \<Rightarrow> error + int" where
  "layout_get field collection_layout =
     (case collection_layout of
        PDict d \<Rightarrow> (case map_of d field of Some n \<Rightarrow> Inr n | None \<Rightarrow> Inr (- 1))
      | PStr s \<Rightarrow>
          if str_contains field s then Inl (TypeError ''string indices must be integers'')
          else Inr (- 1)
      | _ \<Rightarrow> Inl (TypeError ''argument is not iterable''))"

text \<open>The loop of \<^verbatim>\<open>__resolve_collection_layout_params__\<close> over the decorator's options.\<close>

fun layout_loop ::
  "pydict \<Rightarrow> string \<times> int \<times> int \<times> int \<Rightarrow> error + (string \<times> int \<times> int \<times> int)" where
  "layout_loop [] acc = Inr acc"
| "layout_loop ((key, v) # items) acc =
     (if str_contains ''_layout'' key then
        (case layout_get ''block_count'' v of
           Inl e \<Rightarrow> Inl e
         | Inr block_count \<Rightarrow>
        (case layout_get ''block_length'' v of
           Inl e \<Rightarrow> Inl e
         | Inr block_length \<Rightarrow>
        (case layout_get ''stride'' v of
           Inl e \<Rightarrow> Inl e
         | Inr stride \<Rightarrow>
             if (block_length \<noteq> - 1 \<and> block_count = - 1) \<or> (stride \<noteq> - 1 \<and> block_count = - 1)
             then Inl (Exception ''Error: collection_layout must contain block_count!'')
             else layout_loop items (before_first ''_layout'' key, block_count, block_length, stride))))
      else layout_loop items acc)"

text \<open>
  \<^verbatim>\<open>MPI.__resolve_collection_layout_params__(self, kwargs)\<close>. The parameter \<^verbatim>\<open>kwargs\<close> is
  required (it has no default) and the body does not read it.
\<close>

definition resolve_collection_layout_params :: "mpi_self \<Rightarrow> call_kwargs \<Rightarrow> error + pyval list" where
  "resolve_collection_layout_params self kwargs =
     (case layout_loop (mpi_kwargs self) ([], - 1, - 1, - 1) of
        Inl e \<Rightarrow> Inl e
      | Inr (param_name, block_count, block_length, stride) \<Rightarrow>
          Inr [PStr param_name, PStr (str_int block_count), PStr (str_int block_length),
               PStr (str_int stride)])"

text \<open>
  A call of a method that has one required parameter besides \<^verbatim>\<open>self\<close>: when the call
  passes no argument for it, Python raises \<^verbatim>\<open>TypeError\<close> and the body does not run.
\<close>

definition call_method1 :: "string \<Rightarrow> ('a \<Rightarrow> error + 'b) \<Rightarrow> 'a option \<Rightarrow> error + 'b" where
  "call_method1 msg f a = (case a of None \<Rightarrow> Inl (TypeError msg) | Some x \<Rightarrow> f x)"

text \<open>The text of the option \<^verbatim>\<open>scale_by_cu\<close> (lines 212 to 225 of \<^verbatim>\<open>mpi.py\<close>).\<close>

definition scale_by_cu_str :: "pydict \<Rightarrow> error + string" where
  "scale_by_cu_str kw =
     (case map_of kw ''scale_by_cu'' of
        None \<Rightarrow> Inr ''false''
      | Some (PBool b) \<Rightarrow> Inr (if b then ''true'' else ''false'')
      | Some (PStr s) \<Rightarrow> Inr s
      | Some _ \<Rightarrow>
          Inl (Exception
            ''Incorrect format for scale_by_cu property. It should be boolean or an environment variable''))"

text \<open>
  Lines 234 to 264 of \<^verbatim>\<open>__configure_core_element__\<close>: the implementation signature, the
  list of implementation arguments, the three writes to the core element (the one found
  under \<^verbatim>\<open>CORE_ELEMENT_KEY\<close>, or a new one stored there), and the registration flag. The
  result is the exception raised, if any, the decorator object and the call's keyword
  arguments.
\<close>

definition configure_finish ::
  "mpi_self \<Rightarrow> call_kwargs \<Rightarrow> pyval \<Rightarrow> string \<Rightarrow> pyval \<Rightarrow> pyval \<Rightarrow> string \<Rightarrow> pyval list \<Rightarrow>
   error option \<times> mpi_self \<times> call_kwargs" where
  "configure_finish self kwargs binary impl_type runner flags scale_by_cu_s collection_layout_params =
     (case (if binary = PStr ''[unassigned]'' then Inr (impl_type @ ''.'')
            else (case map_of (mpi_kwargs self) ''processes'' of
                    None \<Rightarrow> Inl (KeyError ''processes'')
                  | Some processes \<Rightarrow>
                      (case binary of
                         PStr b \<Rightarrow> Inr (impl_type @ ''.'' @ py_str processes @ ''.'' @ b)
                       | _ \<Rightarrow> Inl (TypeError ''sequence item 2: expected str instance'')))) of
        Inl e \<Rightarrow> (Some e, self, kwargs)
      | Inr impl_signature \<Rightarrow>
          (case map_of (mpi_kwargs self) ''working_dir'' of
             None \<Rightarrow> (Some (KeyError ''working_dir''), self, kwargs)
           | Some working_dir \<Rightarrow>
               (case map_of (mpi_kwargs self) ''fail_by_exit_value'' of
                  None \<Rightarrow> (Some (KeyError ''fail_by_exit_value''), self, kwargs)
                | Some fail_by_exit_value \<Rightarrow>
                    (let impl_args = [binary, working_dir, runner, flags, PStr scale_by_cu_s,
                                      fail_by_exit_value] @ collection_layout_params;
                         core_element =
                           (case kw_core_element kwargs of Some ce \<Rightarrow> ce | None \<Rightarrow> CE_new);
                         core_element1 =
                           set_impl_type_args (Some impl_args)
                             (set_impl_signature (Some impl_signature)
                               (set_impl_type (Some impl_type) core_element))
                     in (None, self\<lparr> core_element_configured := True \<rparr>,
                         kwargs\<lparr> kw_core_element := Some core_element1 \<rparr>)))))"

text \<open>
  \<^verbatim>\<open>MPI.__configure_core_element__(self, kwargs)\<close>. The base-class methods
  \<^verbatim>\<open>__resolve_working_dir__\<close> and \<^verbatim>\<open>__resolve_fail_by_exit_value__\<close> are not part of the
  sources and are parameters: each returns the decorator's options as it leaves them, or
  raises. Line 232 calls \<^verbatim>\<open>self.__resolve_collection_layout_params__()\<close> with no argument
  for the required parameter \<^verbatim>\<open>kwargs\<close>.
\<close>

definition configure_core_element ::
  "(pydict \<Rightarrow> error + pydict) \<Rightarrow> (pydict \<Rightarrow> error + pydict) \<Rightarrow> mpi_self \<Rightarrow> call_kwargs \<Rightarrow>
   error option \<times> mpi_self \<times> call_kwargs" where
  "configure_core_element resolve_working_dir resolve_fail_by_exit_value self kwargs =
     (let binary = (case map_of (mpi_kwargs self) ''binary'' of
                      Some b \<Rightarrow> b | None \<Rightarrow> PStr ''[unassigned]'');
          impl_type = (if has_key ''binary'' (mpi_kwargs self) then ''MPI'' else ''PYTHON_MPI'');
          self1 = (if has_key ''binary'' (mpi_kwargs self) then self
                   else self\<lparr> task_type := ''PYTHON_MPI'' \<rparr>)
      in case map_of (mpi_kwargs self1) ''runner'' of
           None \<Rightarrow> (Some (KeyError ''runner''), self1, kwargs)
         | Some runner \<Rightarrow>
             (let flags = (case map_of (mpi_kwargs self1) ''flags'' of
                             Some f \<Rightarrow> f | None \<Rightarrow> PStr ''[unassigned]'')
              in case scale_by_cu_str (mpi_kwargs self1) of
                   Inl e \<Rightarrow> (Some e, self1, kwargs)
                 | Inr scale_by_cu_s \<Rightarrow>
                     (case resolve_working_dir (mpi_kwargs self1) of
                        Inl e \<Rightarrow> (Some e, self1, kwargs)
                      | Inr kw1 \<Rightarrow>
                          (case resolve_fail_by_exit_value kw1 of
                             Inl e \<Rightarrow> (Some e, self1\<lparr> mpi_kwargs := kw1 \<rparr>, kwargs)
                           | Inr kw2 \<Rightarrow>
                               (let self2 = self1\<lparr> mpi_kwargs := kw2 \<rparr> in
                                case call_method1
                                       ''__resolve_collection_layout_params__() missing 1 required positional argument: kwargs''
                                       (resolve_collection_layout_params self2) None of
                                  Inl e \<Rightarrow> (Some e, self2, kwargs)
                                | Inr collection_layout_params \<Rightarrow>
                                    configure_finish self2 kwargs binary impl_type runner flags
                                      scale_by_cu_s collection_layout_params)))))"

text \<open>
  \<^verbatim>\<open>MPI.__call__.mpi_f\<close>. \<open>not_in_pycompss\<close> (of \<^verbatim>\<open>pycompss.api.commons.error_msgs\<close>, not
  part of the sources) builds the message of the out-of-scope exception. The result is
  what the call returns or raises, the decorator object, and the keyword arguments as
  the wrapper leaves them (the ones the wrapped function receives).
\<close>

definition mpi_f ::
  "(string \<Rightarrow> string) \<Rightarrow> (pydict \<Rightarrow> error + pydict) \<Rightarrow> (pydict \<Rightarrow> error + pydict) \<Rightarrow> role \<Rightarrow>
   (pyval list \<Rightarrow> call_kwargs \<Rightarrow> error + 'r) \<Rightarrow> pyval list \<Rightarrow> call_kwargs \<Rightarrow> mpi_self \<Rightarrow>
   (error + 'r) \<times> mpi_self \<times> call_kwargs" where
  "mpi_f not_in_pycompss resolve_working_dir resolve_fail_by_exit_value ctx func args kwargs self =
     (if \<not> mpi_scope self then (Inl (Exception (not_in_pycompss ''mpi'')), self, kwargs)
      else
        (case (if in_master ctx then
                 (if \<not> core_element_configured self
                  then configure_core_element resolve_working_dir resolve_fail_by_exit_value
                         self kwargs
                  else (None, self, kwargs))
               else (None, self, kwargs)) of
           (Some e, self1, kwargs1) \<Rightarrow> (Inl e, self1, kwargs1)
         | (None, self1, kwargs1) \<Rightarrow>
             (case map_of (mpi_kwargs self1) ''processes'' of
                None \<Rightarrow> (Inl (KeyError ''processes''), self1, kwargs1)
              | Some processes \<Rightarrow>
                  (let kwargs2 = kwargs1\<lparr> kw_entries :=
                                   dict_set ''computing_nodes'' processes (kw_entries kwargs1) \<rparr>
                   in (func args kwargs2, self1, kwargs2)))))"

text \<open>The decorator object after a sequence of calls, each with its own arguments.\<close>

fun mpi_calls ::
  "(string \<Rightarrow> string) \<Rightarrow> (pydict \<Rightarrow> error + pydict) \<Rightarrow> (pydict \<Rightarrow> error + pydict) \<Rightarrow> role \<Rightarrow>
   (pyval list \<Rightarrow> call_kwargs \<Rightarrow> error + 'r) \<Rightarrow> (pyval list \<times> call_kwargs) list \<Rightarrow> mpi_self \<Rightarrow>
   mpi_self" where
  "mpi_calls nip rwd rfe ctx func [] self = self"
| "mpi_calls nip rwd rfe ctx func ((args, kwargs) # calls) self =
     mpi_calls nip rwd rfe ctx func calls (fst (snd (mpi_f nip rwd rfe ctx func args kwargs self)))"

section \<open>The data transformation decorator\<close>

record dt_self =
  dt_args :: "dec_arg list"
  dt_kwargs :: pydict
  dt_scope :: bool
  dt_core_element :: "CE option"
  dt_core_element_configured :: bool
  dt_user_function :: "user_fn option"

text \<open>
  \<^verbatim>\<open>DataTransformation.__init__\<close>; \<^verbatim>\<open>check_arguments\<close> is a parameter as above. The three
  argument sets of the module are empty.
\<close>

definition DataTransformation_init ::
  "(string set \<Rightarrow> string set \<Rightarrow> string set \<Rightarrow> string list \<Rightarrow> string \<Rightarrow> error option) \<Rightarrow>
   role \<Rightarrow> dec_arg list \<Rightarrow> pydict \<Rightarrow> error + dt_self" where
  "DataTransformation_init check_arguments ctx args kwargs =
     (let self = \<lparr> dt_args = args, dt_kwargs = kwargs, dt_scope = in_pycompss ctx,
                   dt_core_element = None, dt_core_element_configured = False,
                   dt_user_function = None \<rparr>
      in if dt_scope self then
           (case check_arguments {} {} ({} \<union> {}) (map fst kwargs) ''@datatransformation'' of
              Some e \<Rightarrow> Inl e
            | None \<Rightarrow> Inr self)
         else Inr self)"

text \<open>\<^verbatim>\<open>is_workflow in [True, "True", "true", 1, "1"]\<close>.\<close>

definition is_workflow_value :: "pyval \<Rightarrow> bool" where
  "is_workflow_value w = (w \<in> set [PBool True, PStr ''True'', PStr ''true'', PInt 1, PStr ''1''])"

text \<open>\<^verbatim>\<open>list(keyz).index(x)\<close>, for \<open>x\<close> in the list.\<close>

fun index_of :: "'a \<Rightarrow> 'a list \<Rightarrow> nat" where
  "index_of x [] = 0"
| "index_of x (y # ys) = (if x = y then 0 else Suc (index_of x ys))"

text \<open>Calling a decorator argument: a name is not callable.\<close>

definition call_dec :: "dec_arg \<Rightarrow> pyval \<Rightarrow> pydict \<Rightarrow> error + pyval" where
  "call_dec func p_value func_kwargs =
     (case func of
        FuncArg g \<Rightarrow> g p_value func_kwargs
      | NameArg n \<Rightarrow> Inl (TypeError ''object is not callable''))"

text \<open>
  \<^verbatim>\<open>DataTransformation._apply_dt\<close>. \<open>is_workflow_label\<close> is \<^verbatim>\<open>LABELS.is_workflow\<close> and
  \<open>transform\<close> is the task \<^verbatim>\<open>_transform\<close> as \<^verbatim>\<open>@task(returns=object)\<close> wraps it (the
  constants module and the task decorator are not part of the sources): it returns the
  task-derived result. \<open>workflow_flag\<close> and \<open>pop_label\<close> are lines 158 to 161 (the flag, and
  \<^verbatim>\<open>func_kwargs\<close> after the \<^verbatim>\<open>pop\<close> of the label), \<open>dt_new_value\<close> is lines 181 to 185. The
  first component of the result of \<open>apply_dt\<close> is the exception raised or the positional
  and keyword arguments as updated; the second is \<^verbatim>\<open>func_kwargs\<close> after the \<^verbatim>\<open>pop\<close>. A
  parameter name that is a function is in no dictionary of names.
\<close>

definition workflow_flag :: "string \<Rightarrow> pydict \<Rightarrow> bool" where
  "workflow_flag is_workflow_label func_kwargs =
     (case map_of func_kwargs is_workflow_label of
        Some w \<Rightarrow> is_workflow_value w
      | None \<Rightarrow> False)"

definition pop_label :: "string \<Rightarrow> pydict \<Rightarrow> pydict" where
  "pop_label is_workflow_label func_kwargs =
     (if has_key is_workflow_label func_kwargs
      then dict_del is_workflow_label func_kwargs else func_kwargs)"

definition dt_new_value ::
  "(pyval \<Rightarrow> dec_arg \<Rightarrow> pydict \<Rightarrow> error + pyval) \<Rightarrow> bool \<Rightarrow> dec_arg \<Rightarrow> pydict \<Rightarrow> pyval \<Rightarrow>
   error + pyval" where
  "dt_new_value transform is_workflow func func_kwargs p_value =
     (if is_workflow then call_dec func p_value func_kwargs
      else transform p_value func func_kwargs)"

definition apply_dt ::
  "string \<Rightarrow> (pyval \<Rightarrow> dec_arg \<Rightarrow> pydict \<Rightarrow> error + pyval) \<Rightarrow> user_fn \<Rightarrow> dec_arg \<Rightarrow> dec_arg \<Rightarrow>
   pydict \<Rightarrow> pyval list \<Rightarrow> pydict \<Rightarrow> (error + pyval list \<times> pydict) \<times> pydict" where
  "apply_dt is_workflow_label transform user_function param_name func func_kwargs args kwargs =
     (let is_workflow = workflow_flag is_workflow_label func_kwargs;
          func_kwargs1 = pop_label is_workflow_label func_kwargs;
          new_value = dt_new_value transform is_workflow func func_kwargs1;
          outcome =
            (case param_name of
               FuncArg g \<Rightarrow> Inl (Exception ''Wrong Param Name in DT'')
             | NameArg p \<Rightarrow>
                 (case map_of kwargs p of
                    Some p_value \<Rightarrow>
                      (case new_value p_value of
                         Inl e \<Rightarrow> Inl e
                       | Inr nv \<Rightarrow> Inr (args, dict_set p nv kwargs))
                  | None \<Rightarrow>
                      (let keyz = map fst (fn_params user_function) in
                       if p \<notin> set keyz then Inl (Exception ''Wrong Param Name in DT'')
                       else
                         (let i = index_of p keyz;
                              p_value = (if i < length args then args ! i
                                         else (case map_of (fn_params user_function) p of
                                                 Some (Some d) \<Rightarrow> d | _ \<Rightarrow> PEmpty))
                          in case new_value p_value of
                               Inl e \<Rightarrow> Inl e
                             | Inr nv \<Rightarrow>
                                 if i \<ge> length args then Inr (args, dict_set p nv kwargs)
                                 else Inr (args[i := nv], kwargs)))))
      in (outcome, func_kwargs1))"

text \<open>The loop \<^verbatim>\<open>for _dt in dts\<close> of \<^verbatim>\<open>__call_dt__\<close>.\<close>

fun apply_dts ::
  "string \<Rightarrow> (pyval \<Rightarrow> dec_arg \<Rightarrow> pydict \<Rightarrow> error + pyval) \<Rightarrow> user_fn \<Rightarrow>
   (dec_arg \<times> dec_arg \<times> pydict) list \<Rightarrow> pyval list \<Rightarrow> pydict \<Rightarrow> error + pyval list \<times> pydict" where
  "apply_dts is_workflow_label transform user_function [] args kwargs = Inr (args, kwargs)"
| "apply_dts is_workflow_label transform user_function ((param_name, func, func_kwargs) # dts)
     args kwargs =
     (case fst (apply_dt is_workflow_label transform user_function param_name func func_kwargs
                  args kwargs) of
        Inl e \<Rightarrow> Inl e
      | Inr (args1, kwargs1) \<Rightarrow>
          apply_dts is_workflow_label transform user_function dts args1 kwargs1)"

text \<open>
  \<^verbatim>\<open>DataTransformation.__call_dt__(self, user_function, args, kwargs)\<close>: \<open>args\<close> is the list
  of the call's positional arguments. With the stored arguments, \<^verbatim>\<open>func_kwargs\<close> is the
  decorator's own \<^verbatim>\<open>self.kwargs\<close>, which keeps the \<^verbatim>\<open>pop\<close>.
\<close>

definition call_dt ::
  "string \<Rightarrow> (pyval \<Rightarrow> dec_arg \<Rightarrow> pydict \<Rightarrow> error + pyval) \<Rightarrow> dt_self \<Rightarrow> user_fn \<Rightarrow> pyval list \<Rightarrow>
   call_kwargs \<Rightarrow> (error + pyval list \<times> call_kwargs) \<times> dt_self" where
  "call_dt is_workflow_label transform self user_function args kwargs =
     (let self1 = self\<lparr> dt_user_function := Some user_function \<rparr> in
      if length args = 0 then
        (Inl (PyCOMPSsException ''Missing arguments in DT decorator.''), self1)
      else
        (case kw_dt kwargs of
           Some tmp \<Rightarrow>
             (let kwargs1 = kwargs\<lparr> kw_dt := None \<rparr>;
                  dts = (case tmp of
                           DTSingle d \<Rightarrow> [dto_extract d]
                         | DTMany ds \<Rightarrow> map dto_extract ds
                         | DTOther x \<Rightarrow> [])
              in (case apply_dts is_workflow_label transform user_function dts args
                         (kw_entries kwargs1) of
                    Inl e \<Rightarrow> (Inl e, self1)
                  | Inr (args1, kw1) \<Rightarrow> (Inr (args1, kwargs1\<lparr> kw_entries := kw1 \<rparr>), self1)))
         | None \<Rightarrow>
             if length (dt_args self1) < 2 then
               (Inl (PyCOMPSsException ''Missing arguments in DT decorator.''), self1)
             else
               (case apply_dt is_workflow_label transform user_function (dt_args self1 ! 0)
                       (dt_args self1 ! 1) (dt_kwargs self1) args (kw_entries kwargs) of
                  (Inl e, func_kwargs1) \<Rightarrow> (Inl e, self1\<lparr> dt_kwargs := func_kwargs1 \<rparr>)
                | (Inr (args1, kw1), func_kwargs1) \<Rightarrow>
                    (Inr (args1, kwargs\<lparr> kw_entries := kw1 \<rparr>),
                     self1\<lparr> dt_kwargs := func_kwargs1 \<rparr>))))"

text \<open>
  \<^verbatim>\<open>DataTransformation.__call__.dt_f\<close>; \<open>nesting\<close> is \<^verbatim>\<open>CONTEXT.is_nesting_enabled()\<close>.
\<close>

definition dt_f ::
  "string \<Rightarrow> (pyval \<Rightarrow> dec_arg \<Rightarrow> pydict \<Rightarrow> error + pyval) \<Rightarrow> role \<Rightarrow> bool \<Rightarrow> user_fn \<Rightarrow>
   pyval list \<Rightarrow> call_kwargs \<Rightarrow> dt_self \<Rightarrow> (error + pyval) \<times> dt_self" where
  "dt_f is_workflow_label transform ctx nesting user_function args kwargs self =
     (if \<not> dt_scope self then (Inl NotImplementedError, self)
      else if (in_master ctx \<or> nesting) \<and> \<not> dt_core_element_configured self then
        (case call_dt is_workflow_label transform self user_function args kwargs of
           (Inl e, self1) \<Rightarrow> (Inl e, self1)
         | (Inr (tmp, kwargs1), self1) \<Rightarrow> (fn_body user_function tmp kwargs1, self1))
      else (fn_body user_function args kwargs, self))"

section \<open>Concrete inputs\<close>

text \<open>
  Stand-ins for the helpers that are parameters of the model, and small user functions,
  for evaluating the model on concrete calls: a \<^verbatim>\<open>check_arguments\<close> that accepts, helpers
  that leave the decorator's options as they are, a task runtime that computes a
  transform at once, and the user functions \<^verbatim>\<open>def f(x): return x\<close> and
  \<^verbatim>\<open>def h(a, **kw): return kw["x"]\<close>, and the transform \<^verbatim>\<open>def g(v): return v + 1\<close>.
\<close>

definition accept_arguments ::
  "string set \<Rightarrow> string set \<Rightarrow> string set \<Rightarrow> string list \<Rightarrow> string \<Rightarrow> error option" where
  "accept_arguments mandatory deprecated supported keys decorator_name = None"

definition keep_computing_nodes :: "string \<Rightarrow> pydict \<Rightarrow> error + pydict" where
  "keep_computing_nodes decorator_name kw = Inr kw"

definition keep_options :: "pydict \<Rightarrow> error + pydict" where
  "keep_options kw = Inr kw"

definition plain_message :: "string \<Rightarrow> string" where
  "plain_message decorator_name = decorator_name"

definition runner_only_options :: pydict where
  "runner_only_options =
     [(''runner'', PStr ''mpirun''), (''working_dir'', PStr ''/tmp''),
      (''fail_by_exit_value'', PStr ''false'')]"

definition binary_options :: pydict where
  "binary_options =
     [(''runner'', PStr ''mpirun''), (''binary'', PStr ''date''),
      (''working_dir'', PStr ''/tmp''), (''fail_by_exit_value'', PStr ''false'')]"

definition two_layout_options :: pydict where
  "two_layout_options =
     [(''runner'', PStr ''mpirun''), (''a_layout'', PDict [(''block_count'', 2)]),
      (''b_layout'', PDict [(''block_count'', 4)])]"

definition mpi_declared :: "pydict \<Rightarrow> mpi_self" where
  "mpi_declared options =
     \<lparr> task_type = ''mpi'', mpi_args = [], mpi_kwargs = options, mpi_scope = True,
       core_element_configured = False \<rparr>"

definition dt_declared :: "bool \<Rightarrow> dec_arg list \<Rightarrow> pydict \<Rightarrow> dt_self" where
  "dt_declared scope args kwargs =
     \<lparr> dt_args = args, dt_kwargs = kwargs, dt_scope = scope, dt_core_element = None,
       dt_core_element_configured = False, dt_user_function = None \<rparr>"

definition no_kwargs :: call_kwargs where
  "no_kwargs = \<lparr> kw_entries = [], kw_core_element = None, kw_dt = None \<rparr>"

definition return_none :: "pyval list \<Rightarrow> call_kwargs \<Rightarrow> error + pyval" where
  "return_none args kwargs = Inr PNone"

definition g_increment :: "pyval \<Rightarrow> pydict \<Rightarrow> error + pyval" where
  "g_increment v kw =
     (case v of PInt i \<Rightarrow> Inr (PInt (i + 1)) | _ \<Rightarrow> Inl (TypeError ''unsupported operand''))"

definition transform_now :: "pyval \<Rightarrow> dec_arg \<Rightarrow> pydict \<Rightarrow> error + pyval" where
  "transform_now data function kw = call_dec function data kw"

definition f_identity :: user_fn where
  "f_identity =
     \<lparr> fn_params = [(''x'', None)],
       fn_body = (\<lambda>args kwargs.
         case args of
           v # rest \<Rightarrow> Inr v
         | [] \<Rightarrow> (case map_of (kw_entries kwargs) ''x'' of
                    Some v \<Rightarrow> Inr v
                  | None \<Rightarrow> Inl (TypeError ''missing 1 required positional argument''))) \<rparr>"

definition f_default :: user_fn where
  "f_default =
     \<lparr> fn_params = [(''y'', None), (''x'', Some (PInt 7))],
       fn_body = (\<lambda>args kwargs.
         case args of
           y # v # rest \<Rightarrow> Inr v
         | _ \<Rightarrow> (case map_of (kw_entries kwargs) ''x'' of
                   Some v \<Rightarrow> Inr v
                 | None \<Rightarrow> Inr (PInt 7))) \<rparr>"

definition h_keywords :: user_fn where
  "h_keywords =
     \<lparr> fn_params = [(''a'', None), (''kw'', None)],
       fn_body = (\<lambda>args kwargs.
         case map_of (kw_entries kwargs) ''x'' of
           Some v \<Rightarrow> Inr v
         | None \<Rightarrow> Inl (KeyError ''x'')) \<rparr>"

lemmas CE_getters = get_ce_signature_def get_impl_signature_def get_impl_constraints_def
  get_impl_type_def get_impl_io_def get_impl_type_args_def

lemmas CE_setters = set_ce_signature_def set_impl_signature_def set_impl_constraints_def
  set_impl_type_def set_impl_io_def set_impl_type_args_def

section \<open>Properties of the core element\<close>

text \<open>
  Claim C10. Each of the six setters of a core element changes its own slot and leaves
  the other five as they were; a getter returns the value last given to its setter
  (the value just set, whatever the slot held before); \<open>reset\<close> leaves all six slots
  None.
\<close>

theorem CE_setters_getters_reset:
  "(get_ce_signature (set_ce_signature v1 c) = v1 \<and>
    get_impl_signature (set_ce_signature v1 c) = get_impl_signature c \<and>
    get_impl_constraints (set_ce_signature v1 c) = get_impl_constraints c \<and>
    get_impl_type (set_ce_signature v1 c) = get_impl_type c \<and>
    get_impl_io (set_ce_signature v1 c) = get_impl_io c \<and>
    get_impl_type_args (set_ce_signature v1 c) = get_impl_type_args c) \<and>
   (get_ce_signature (set_impl_signature v2 c) = get_ce_signature c \<and>
    get_impl_signature (set_impl_signature v2 c) = v2 \<and>
    get_impl_constraints (set_impl_signature v2 c) = get_impl_constraints c \<and>
    get_impl_type (set_impl_signature v2 c) = get_impl_type c \<and>
    get_impl_io (set_impl_signature v2 c) = get_impl_io c \<and>
    get_impl_type_args (set_impl_signature v2 c) = get_impl_type_args c) \<and>
   (get_ce_signature (set_impl_constraints v3 c) = get_ce_signature c \<and>
    get_impl_signature (set_impl_constraints v3 c) = get_impl_signature c \<and>
    get_impl_constraints (set_impl_constraints v3 c) = v3 \<and>
    get_impl_type (set_impl_constraints v3 c) = get_impl_type c \<and>
    get_impl_io (set_impl_constraints v3 c) = get_impl_io c \<and>
    get_impl_type_args (set_impl_constraints v3 c) = get_impl_type_args c) \<and>
   (get_ce_signature (set_impl_type v4 c) = get_ce_signature c \<and>
    get_impl_signature (set_impl_type v4 c) = get_impl_signature c \<and>
    get_impl_constraints (set_impl_type v4 c) = get_impl_constraints c \<and>
    get_impl_type (set_impl_type v4 c) = v4 \<and>
    get_impl_io (set_impl_type v4 c) = get_impl_io c \<and>
    get_impl_type_args (set_impl_type v4 c) = get_impl_type_args c) \<and>
   (get_ce_signature (set_impl_io v5 c) = get_ce_signature c \<and>
    get_impl_signature (set_impl_io v5 c) = get_impl_signature c \<and>
    get_impl_constraints (set_impl_io v5 c) = get_impl_constraints c \<and>
    get_impl_type (set_impl_io v5 c) = get_impl_type c \<and>
    get_impl_io (set_impl_io v5 c) = v5 \<and>
    get_impl_type_args (set_impl_io v5 c) = get_impl_type_args c) \<and>
   (get_ce_signature (set_impl_type_args v6 c) = get_ce_signature c \<and>
    get_impl_signature (set_impl_type_args v6 c) = get_impl_signature c \<and>
    get_impl_constraints (set_impl_type_args v6 c) = get_impl_constraints c \<and>
    get_impl_type (set_impl_type_args v6 c) = get_impl_type c \<and>
    get_impl_io (set_impl_type_args v6 c) = get_impl_io c \<and>
    get_impl_type_args (set_impl_type_args v6 c) = v6) \<and>
   reset c = CE_new"
proof (intro conjI)
  show "reset c = CE_new"
    by (simp add: reset_def CE_new_def CE_init_def)
qed (simp_all add: CE_getters CE_setters)

section \<open>Properties of the MPI decorator\<close>

lemma str_int_minus1: "str_int (- 1) = ''-1''"
  by (simp add: str_int_def str_nat.simps digit_char_def)

lemma layout_scan_count:
  "fst (layout_scan keys n S) = n + length (filter (str_contains ''_layout'') keys)"
  by (induction keys arbitrary: n S) simp_all

text \<open>
  Claim C3. An MPI decorator declared in scope (the execution context is not UNSET) with
  two or more keyword options whose names contain \<^verbatim>\<open>_layout\<close> fails at the declaration:
  the constructor raises, before \<^verbatim>\<open>check_arguments\<close> runs and before any decorator object
  exists that could wrap or call a function. The exception is the specification's
  ConfigurationError; the source raises it as \<^verbatim>\<open>Exception\<close> with the message below.
\<close>

theorem MPI_two_layouts_raise:
  assumes "in_pycompss ctx"
    and "1 < length (filter (str_contains ''_layout'') (map fst kwargs))"
  shows "fst (MPI_init check_arguments process_computing_nodes ctx supported args kwargs) =
           Inl (Exception ''More than one layout definition is not yet supported!'')"
proof -
  obtain n S where scan: "layout_scan (map fst kwargs) 0 supported = (n, S)"
    by (cases "layout_scan (map fst kwargs) 0 supported")
  have "n = length (filter (str_contains ''_layout'') (map fst kwargs))"
    using layout_scan_count [of "map fst kwargs" 0 supported] scan by simp
  with assms(2) have "1 < n" by simp
  with assms(1) scan show ?thesis
    by (simp add: MPI_init_def Let_def)
qed

theorem MPI_two_layouts_raise_witness:
  "in_pycompss SUBMITTER \<and>
   1 < length (filter (str_contains ''_layout'') (map fst two_layout_options)) \<and>
   fst (MPI_init accept_arguments keep_computing_nodes SUBMITTER SUPPORTED_ARGUMENTS []
          two_layout_options) =
     Inl (Exception ''More than one layout definition is not yet supported!'')"
proof -
  have h1: "in_pycompss SUBMITTER"
    by (simp add: in_pycompss_def)
  have h2: "1 < length (filter (str_contains ''_layout'') (map fst two_layout_options))"
    by (simp add: two_layout_options_def)
  show ?thesis
    using h1 h2 MPI_two_layouts_raise [OF h1 h2] by simp
qed

text \<open>
  The configure step of the MPI decorator never completes: whatever the options, the
  helpers and the call's keyword arguments, it raises (at the latest the \<^verbatim>\<open>TypeError\<close> of
  line 232), leaves the call's keyword arguments, and with them any core element, as
  they were, and does not set the registration flag.
\<close>

lemma configure_core_element_raises:
  "fst (configure_core_element rwd rfe self kwargs) \<noteq> None \<and>
   snd (snd (configure_core_element rwd rfe self kwargs)) = kwargs \<and>
   core_element_configured (fst (snd (configure_core_element rwd rfe self kwargs))) =
     core_element_configured self \<and>
   mpi_scope (fst (snd (configure_core_element rwd rfe self kwargs))) = mpi_scope self"
  by (simp add: configure_core_element_def call_method1_def Let_def
           split: option.splits sum.splits)

lemma mpi_f_submitter_raises:
  assumes "mpi_scope self" and "\<not> core_element_configured self"
  shows "isl (fst (mpi_f nip rwd rfe SUBMITTER func args kwargs self)) \<and>
         \<not> core_element_configured (fst (snd (mpi_f nip rwd rfe SUBMITTER func args kwargs self))) \<and>
         mpi_scope (fst (snd (mpi_f nip rwd rfe SUBMITTER func args kwargs self))) \<and>
         snd (snd (mpi_f nip rwd rfe SUBMITTER func args kwargs self)) = kwargs"
proof -
  obtain e self1 kwargs1 where c: "configure_core_element rwd rfe self kwargs = (e, self1, kwargs1)"
    by (cases "configure_core_element rwd rfe self kwargs")
  from configure_core_element_raises [of rwd rfe self kwargs] c
  have "e \<noteq> None" "kwargs1 = kwargs" "core_element_configured self1 = core_element_configured self"
    "mpi_scope self1 = mpi_scope self"
    by simp_all
  with assms c show ?thesis
    by (auto simp: mpi_f_def in_master_def)
qed

lemma mpi_flag_never_set:
  "mpi_scope self \<Longrightarrow> \<not> core_element_configured self \<Longrightarrow>
   \<not> core_element_configured (mpi_calls nip rwd rfe SUBMITTER func calls self)"
proof (induction calls arbitrary: self)
  case Nil
  then show ?case by simp
next
  case (Cons c calls)
  obtain args kwargs where c: "c = (args, kwargs)" by (cases c)
  from mpi_f_submitter_raises [OF Cons.prems, of nip rwd rfe func args kwargs]
  have "mpi_scope (fst (snd (mpi_f nip rwd rfe SUBMITTER func args kwargs self)))"
    "\<not> core_element_configured (fst (snd (mpi_f nip rwd rfe SUBMITTER func args kwargs self)))"
    by simp_all
  then show ?case using Cons.IH c by simp
qed

text \<open>
  What the collection-layout resolver returns when it is given its argument and no option
  names a layout: the empty parameter name and three times \<^verbatim>\<open>-1\<close>, the last four entries
  of the list of claim C1.
\<close>

lemma resolve_no_layout:
  assumes "\<forall>k \<in> set (map fst (mpi_kwargs self)). \<not> str_contains ''_layout'' k"
  shows "resolve_collection_layout_params self kwargs =
           Inr [PStr [], PStr ''-1'', PStr ''-1'', PStr ''-1'']"
proof -
  have "\<forall>k \<in> set (map fst d). \<not> str_contains ''_layout'' k \<Longrightarrow> layout_loop d acc = Inr acc"
    for d acc
    by (induction d arbitrary: acc) auto
  with assms show ?thesis
    by (simp add: resolve_collection_layout_params_def str_int_minus1)
qed

text \<open>
  Lines 234 to 264 on their own, for a decorator without \<^verbatim>\<open>binary\<close> and \<^verbatim>\<open>flags\<close>, given the
  layout parameters above: they would store the ten-element list of claim C1.
\<close>

lemma configure_finish_sentinels:
  assumes "map_of (mpi_kwargs self) ''working_dir'' = Some working_dir"
    and "map_of (mpi_kwargs self) ''fail_by_exit_value'' = Some fail_by_exit_value"
    and "configure_finish self kwargs (PStr ''[unassigned]'') ''PYTHON_MPI'' runner
           (PStr ''[unassigned]'') ''false'' [PStr [], PStr ''-1'', PStr ''-1'', PStr ''-1''] =
         (r, self1, kwargs1)"
  shows "r = None \<and>
         map_option get_impl_type_args (kw_core_element kwargs1) =
           Some (Some [PStr ''[unassigned]'', working_dir, runner, PStr ''[unassigned]'',
                       PStr ''false'', fail_by_exit_value, PStr [], PStr ''-1'', PStr ''-1'',
                       PStr ''-1''])"
  using assms
  by (auto simp: configure_finish_def Let_def CE_getters CE_setters)

text \<open>
  Claim C1, on the code. The decorator \<^verbatim>\<open>@mpi(runner="mpirun", working_dir="/tmp",
  fail_by_exit_value="false")\<close>, declared on the submitter, has a runner and no binary,
  flags or layout. Its first submitter-side call does not configure a descriptor: the
  configure step raises \<^verbatim>\<open>TypeError\<close> at line 232, the wrapped function is not called, the
  call's keyword arguments hold no core element afterwards, and so no list of
  implementation arguments is stored anywhere.
\<close>

theorem mpi_runner_only_first_call:
  "MPI_init accept_arguments keep_computing_nodes SUBMITTER SUPPORTED_ARGUMENTS []
     runner_only_options =
     (Inr (mpi_declared (runner_only_options @ [(''processes'', PInt 1)])), SUPPORTED_ARGUMENTS) \<and>
   mpi_f plain_message keep_options keep_options SUBMITTER return_none [] no_kwargs
     (mpi_declared (runner_only_options @ [(''processes'', PInt 1)])) =
     (Inl (TypeError
        ''__resolve_collection_layout_params__() missing 1 required positional argument: kwargs''),
      (mpi_declared (runner_only_options @ [(''processes'', PInt 1)]))\<lparr> task_type := ''PYTHON_MPI'' \<rparr>,
      no_kwargs) \<and>
   kw_core_element no_kwargs = None"
  by (simp add: mpi_f_def MPI_init_def in_pycompss_def in_master_def Let_def accept_arguments_def
      keep_computing_nodes_def keep_options_def has_key_def configure_core_element_def
      call_method1_def scale_by_cu_str_def runner_only_options_def mpi_declared_def no_kwargs_def)

text \<open>
  The second half of claim C9 holds: a declaration in scope that does not supply
  \<^verbatim>\<open>processes\<close> ends with \<^verbatim>\<open>processes\<close> equal to 1, and one that supplies it keeps its value.
\<close>

lemma MPI_init_processes_default:
  assumes "fst (MPI_init check_arguments process_computing_nodes ctx supported args kwargs) =
             Inr self"
    and "in_pycompss ctx"
    and "process_computing_nodes ''@mpi'' kwargs = Inr kw1"
  shows "map_of (mpi_kwargs self) ''processes'' =
           (case map_of kw1 ''processes'' of None \<Rightarrow> Some (PInt 1) | Some p \<Rightarrow> Some p)"
proof -
  have set_new: "map_of d k = None \<Longrightarrow> map_of (dict_set k v d) k = Some v"
    for d :: pydict and k v
    by (induction d) (auto split: if_splits)
  from assms show ?thesis
    by (auto simp: MPI_init_def Let_def has_key_def set_new
             split: prod.splits if_splits option.splits)
qed

text \<open>
  Claim C9, on the code. The decorator \<^verbatim>\<open>@mpi(runner="mpirun", binary="date", ...)\<close> is
  declared on the submitter (\<^verbatim>\<open>processes\<close> becomes 1) and called with a core element that an
  outer decorator put in the keyword arguments. The configure step raises \<^verbatim>\<open>TypeError\<close> at
  line 232, before line 250 writes the implementation type: the core element is as it
  was, its implementation type still None, not \<^verbatim>\<open>MPI\<close>.
\<close>

theorem mpi_impl_type_not_written:
  "MPI_init accept_arguments keep_computing_nodes SUBMITTER SUPPORTED_ARGUMENTS []
     binary_options =
     (Inr (mpi_declared (binary_options @ [(''processes'', PInt 1)])), SUPPORTED_ARGUMENTS) \<and>
   mpi_f plain_message keep_options keep_options SUBMITTER return_none []
     (no_kwargs\<lparr> kw_core_element := Some CE_new \<rparr>)
     (mpi_declared (binary_options @ [(''processes'', PInt 1)])) =
     (Inl (TypeError
        ''__resolve_collection_layout_params__() missing 1 required positional argument: kwargs''),
      mpi_declared (binary_options @ [(''processes'', PInt 1)]),
      no_kwargs\<lparr> kw_core_element := Some CE_new \<rparr>) \<and>
   get_impl_type CE_new = None"
  by (simp add: mpi_f_def MPI_init_def in_pycompss_def in_master_def Let_def accept_arguments_def
      keep_computing_nodes_def keep_options_def has_key_def configure_core_element_def
      call_method1_def scale_by_cu_str_def binary_options_def mpi_declared_def no_kwargs_def
      get_impl_type_def CE_new_def CE_init_def)

section \<open>Registration and role gating\<close>

text \<open>
  The constraint decorator configures once: on the submitter, the decorator object and
  the core element after any number of further calls are those after the first call.
\<close>

lemma constraint_registered_stable:
  assumes "c_scope s" and "c_registered s" and "c_module s = Some modl"
  shows "constrained_calls modl SUBMITTER func cs (s, c) = (s, c)"
proof -
  from assms(3) have upd: "s\<lparr> c_module := Some modl \<rparr> = s"
    by (cases s) simp
  have step: "snd (constrained_f modl SUBMITTER func args kwargs (s, c)) = (s, c)" for args kwargs
    using assms(1,2) by (simp add: constrained_f_def in_master_def Let_def upd)
  show ?thesis
    by (induction cs) (auto simp: step)
qed

lemma constraint_configure_once:
  assumes "c_scope self"
  shows "constrained_calls modl SUBMITTER func ((args, kwargs) # calls) (self, cce) =
         snd (constrained_f modl SUBMITTER func args kwargs (self, cce))"
proof (cases "c_registered self")
  case True
  with assms show ?thesis
    by (simp add: constrained_f_def in_master_def Let_def constraint_registered_stable)
next
  case False
  with assms show ?thesis
    by (simp add: constrained_f_def in_master_def Let_def constraint_registered_stable)
qed

text \<open>
  Claim C5, on the code. For the MPI decorator the configure step does not run exactly
  once: the first submitter call of \<^verbatim>\<open>@mpi(runner="mpirun", ...)\<close> raises before line 264
  sets the registration flag, so the flag is still false after two calls, and the second
  call enters the configure step again and raises again.
\<close>

theorem mpi_flag_stays_false:
  "core_element_configured
     (mpi_calls plain_message keep_options keep_options SUBMITTER return_none
        [([], no_kwargs), ([], no_kwargs)]
        (mpi_declared (runner_only_options @ [(''processes'', PInt 1)]))) = False \<and>
   fst (mpi_f plain_message keep_options keep_options SUBMITTER return_none [] no_kwargs
     (mpi_calls plain_message keep_options keep_options SUBMITTER return_none
        [([], no_kwargs)]
        (mpi_declared (runner_only_options @ [(''processes'', PInt 1)])))) =
     Inl (TypeError
        ''__resolve_collection_layout_params__() missing 1 required positional argument: kwargs'')"
  by (simp add: mpi_f_def in_master_def Let_def
      keep_options_def has_key_def configure_core_element_def
      call_method1_def scale_by_cu_str_def runner_only_options_def mpi_declared_def no_kwargs_def)

lemma call_dt_core_element:
  "dt_core_element (snd (call_dt lbl tr self uf args kwargs)) = dt_core_element self"
  by (simp add: call_dt_def Let_def split: option.splits sum.splits prod.splits)

text \<open>
  Claim C6. With the execution context WORKER, a call of a wrapped function writes no
  field of the task descriptor, whatever the registration flag and however many calls
  are made: the constraint wrapper leaves its decorator object and the current core
  element as they were; the MPI wrapper leaves its decorator object as it was and hands
  on the core element it received among the keyword arguments; the data transformation
  wrapper leaves its core element slot as it was.
\<close>

theorem worker_never_writes_descriptor:
  "snd (constrained_f modl WORKER func args kwargs (self, cce)) = (self, cce) \<and>
   constrained_calls modl WORKER func calls (self, cce) = (self, cce) \<and>
   fst (snd (mpi_f nip rwd rfe WORKER mfunc margs mkwargs mself)) = mself \<and>
   kw_core_element (snd (snd (mpi_f nip rwd rfe WORKER mfunc margs mkwargs mself))) =
     kw_core_element mkwargs \<and>
   mpi_calls nip rwd rfe WORKER mfunc mcalls mself = mself \<and>
   dt_core_element (snd (dt_f lbl tr WORKER nesting uf dargs dkwargs dself)) =
     dt_core_element dself"
proof (intro conjI)
  show one: "snd (constrained_f modl WORKER func args kwargs (self, cce)) = (self, cce)"
    for args kwargs
    by (simp add: constrained_f_def in_master_def)
  show "constrained_calls modl WORKER func calls (self, cce) = (self, cce)"
    by (induction calls) (auto simp: one)
  show m: "fst (snd (mpi_f nip rwd rfe WORKER mfunc margs mkwargs mself)) = mself"
    for margs mkwargs
    by (simp add: mpi_f_def in_master_def Let_def split: option.splits)
  show "kw_core_element (snd (snd (mpi_f nip rwd rfe WORKER mfunc margs mkwargs mself))) =
     kw_core_element mkwargs"
    by (simp add: mpi_f_def in_master_def Let_def split: option.splits)
  show "mpi_calls nip rwd rfe WORKER mfunc mcalls mself = mself"
    by (induction mcalls) (auto simp: m)
  show "dt_core_element (snd (dt_f lbl tr WORKER nesting uf dargs dkwargs dself)) =
     dt_core_element dself"
    using call_dt_core_element [of lbl tr dself uf dargs dkwargs]
    by (auto simp: dt_f_def split: prod.splits sum.splits)
qed

section \<open>Out-of-scope calls\<close>

text \<open>
  Claim C2, counterexample. The data transformation decorator \<^verbatim>\<open>@dt("x", g)\<close> is declared
  with the execution context UNSET on \<^verbatim>\<open>def f(x): return x\<close>. The call \<^verbatim>\<open>f(5)\<close> of the wrapped
  function raises \<^verbatim>\<open>NotImplementedError\<close>, while the unwrapped function returns 5.
\<close>

theorem dt_out_of_scope_counterexample:
  "DataTransformation_init accept_arguments UNSET [NameArg ''x'', FuncArg g_increment] [] =
     Inr (dt_declared False [NameArg ''x'', FuncArg g_increment] []) \<and>
   fst (dt_f ''is_workflow'' transform_now UNSET False f_identity [PInt 5] no_kwargs
          (dt_declared False [NameArg ''x'', FuncArg g_increment] [])) = Inl NotImplementedError \<and>
   fn_body f_identity [PInt 5] no_kwargs = Inr (PInt 5)"
  by (simp add: DataTransformation_init_def in_pycompss_def dt_declared_def dt_f_def
        f_identity_def Let_def)

text \<open>
  Claim C2, amended. For decorators declared with the execution context UNSET (the scope
  is read at the declaration; the context at the call does not matter): a call of a
  constraint-wrapped function goes through the dummy constraint, returns what the
  wrapped function returns on the same arguments, and changes neither the decorator
  object nor the core element; a call of an MPI-wrapped function raises
  \<^verbatim>\<open>Exception(not_in_pycompss("mpi"))\<close> and a call of a function wrapped by the data
  transformation decorator raises \<^verbatim>\<open>NotImplementedError\<close>, neither calling the wrapped
  function.
\<close>

theorem out_of_scope_calls:
  "constrained_f modl ctx func args kwargs (Constraint_init UNSET cargs ckwargs, cce) =
     (func args kwargs, Constraint_init UNSET cargs ckwargs, cce) \<and>
   (\<exists>mself. MPI_init check_arguments process_computing_nodes UNSET supported margs mkwargs =
               (Inr mself, supported) \<and>
            mpi_f not_in_pycompss rwd rfe ctx mfunc args2 kwargs2 mself =
               (Inl (Exception (not_in_pycompss ''mpi'')), mself, kwargs2)) \<and>
   (\<exists>dself. DataTransformation_init check_arguments UNSET dargs dkwargs = Inr dself \<and>
            dt_f lbl tr ctx nesting user_function args3 kwargs3 dself =
               (Inl NotImplementedError, dself))"
  by (simp add: constrained_f_def Constraint_init_def in_pycompss_def dummy_constraint_def
        MPI_init_def mpi_f_def DataTransformation_init_def dt_f_def Let_def)

section \<open>Writing a descriptor field twice\<close>

text \<open>
  Claim C4, counterexample. The current core element already holds the constraints
  \<^verbatim>\<open>{"computing_units": "4"}\<close>. The first submitter call of a function under
  \<^verbatim>\<open>@constraint(computing_units="2")\<close> raises nothing (it returns what the function returns)
  and the core element then holds \<^verbatim>\<open>{"computing_units": "2"}\<close>: the old value is silently
  replaced.
\<close>

theorem constraint_second_write_counterexample:
  "get_impl_constraints (set_impl_constraints (Some [(''computing_units'', PStr ''4'')]) CE_new) =
     Some [(''computing_units'', PStr ''4'')] \<and>
   fst (constrained_f ''tasks'' SUBMITTER return_none [] no_kwargs
          (Constraint_init SUBMITTER [] [(''computing_units'', PStr ''2'')],
           set_impl_constraints (Some [(''computing_units'', PStr ''4'')]) CE_new)) = Inr PNone \<and>
   get_impl_constraints (snd (snd (constrained_f ''tasks'' SUBMITTER return_none [] no_kwargs
          (Constraint_init SUBMITTER [] [(''computing_units'', PStr ''2'')],
           set_impl_constraints (Some [(''computing_units'', PStr ''4'')]) CE_new)))) =
     Some [(''computing_units'', PStr ''2'')]"
  by (simp add: constrained_f_def Constraint_init_def in_pycompss_def in_master_def Let_def
        return_none_def CE_getters CE_setters)

text \<open>
  Claim C4, amended. A descriptor field can be written any number of times: each of the
  six setters replaces the value its field holds, null or not, and no setter raises (a
  setter returns the updated core element and nothing else). In particular the first
  submitter call of a function under a constraint decorator declared in scope stores the
  decorator's constraints in the current core element over whatever constraints it held,
  sets the registration flag and returns what the function returns.
\<close>

theorem setters_overwrite:
  "get_ce_signature (set_ce_signature v1 (set_ce_signature w1 c)) = v1 \<and>
   get_impl_signature (set_impl_signature v2 (set_impl_signature w2 c)) = v2 \<and>
   get_impl_constraints (set_impl_constraints v3 (set_impl_constraints w3 c)) = v3 \<and>
   get_impl_type (set_impl_type v4 (set_impl_type w4 c)) = v4 \<and>
   get_impl_io (set_impl_io v5 (set_impl_io w5 c)) = v5 \<and>
   get_impl_type_args (set_impl_type_args v6 (set_impl_type_args w6 c)) = v6 \<and>
   constrained_f modl SUBMITTER func args kwargs (Constraint_init SUBMITTER cargs ckwargs, cce) =
     (func args kwargs,
      (Constraint_init SUBMITTER cargs ckwargs)\<lparr> c_registered := True, c_module := Some modl \<rparr>,
      set_impl_constraints (Some ckwargs) cce) \<and>
   get_impl_constraints (set_impl_constraints (Some ckwargs) cce) = Some ckwargs"
  by (simp add: constrained_f_def Constraint_init_def in_pycompss_def in_master_def Let_def
        CE_getters CE_setters)

section \<open>Properties of the data transformation decorator\<close>

text \<open>
  The wrapper with the stored decorator arguments, and \<open>apply_dt\<close> for a parameter name
  that is a string, written out.
\<close>

lemma dt_f_stored_args:
  assumes "dt_scope self" and "in_master ctx" and "\<not> dt_core_element_configured self"
    and "args \<noteq> []" and "kw_dt kwargs = None" and "\<not> length (dt_args self) < 2"
  shows "fst (dt_f lbl tr ctx nesting uf args kwargs self) =
           (case fst (apply_dt lbl tr uf (dt_args self ! 0) (dt_args self ! 1) (dt_kwargs self)
                        args (kw_entries kwargs)) of
              Inl e \<Rightarrow> Inl e
            | Inr (args1, kw1) \<Rightarrow> fn_body uf args1 (kwargs\<lparr> kw_entries := kw1 \<rparr>))"
proof -
  obtain r fkw where a: "apply_dt lbl tr uf (dt_args self ! 0) (dt_args self ! 1) (dt_kwargs self)
                        args (kw_entries kwargs) = (r, fkw)"
    by (cases "apply_dt lbl tr uf (dt_args self ! 0) (dt_args self ! 1) (dt_kwargs self)
                        args (kw_entries kwargs)")
  show ?thesis
  proof (cases r)
    case (Inl e)
    with assms a show ?thesis
      by (simp add: dt_f_def call_dt_def Let_def)
  next
    case (Inr p)
    obtain args1 kw1 where p: "p = (args1, kw1)" by (cases p)
    with Inr assms a show ?thesis
      by (simp add: dt_f_def call_dt_def Let_def)
  qed
qed

lemma apply_dt_named:
  "fst (apply_dt lbl tr uf (NameArg x) func fkw args kw) =
     (case map_of kw x of
        Some v \<Rightarrow>
          (case dt_new_value tr (workflow_flag lbl fkw) func (pop_label lbl fkw) v of
             Inl e \<Rightarrow> Inl e
           | Inr nv \<Rightarrow> Inr (args, dict_set x nv kw))
      | None \<Rightarrow>
          if x \<notin> set (map fst (fn_params uf)) then Inl (Exception ''Wrong Param Name in DT'')
          else if index_of x (map fst (fn_params uf)) < length args then
            (case dt_new_value tr (workflow_flag lbl fkw) func (pop_label lbl fkw)
                    (args ! index_of x (map fst (fn_params uf))) of
               Inl e \<Rightarrow> Inl e
             | Inr nv \<Rightarrow> Inr (args[index_of x (map fst (fn_params uf)) := nv], kw))
          else
            (case dt_new_value tr (workflow_flag lbl fkw) func (pop_label lbl fkw)
                    (case map_of (fn_params uf) x of Some (Some d) \<Rightarrow> d | _ \<Rightarrow> PEmpty) of
               Inl e \<Rightarrow> Inl e
             | Inr nv \<Rightarrow> Inr (args, dict_set x nv kw)))"
proof (cases "map_of kw x")
  case (Some v)
  then show ?thesis
    by (simp add: apply_dt_def Let_def)
next
  case None
  show ?thesis
  proof (cases "x \<in> set (map fst (fn_params uf))")
    case False
    with None show ?thesis
      by (simp add: apply_dt_def Let_def)
  next
    case True
    show ?thesis
    proof (cases "index_of x (map fst (fn_params uf)) < length args")
      case True
      with None \<open>x \<in> set (map fst (fn_params uf))\<close> show ?thesis
        by (simp add: apply_dt_def Let_def cong: sum.case_cong)
    next
      case False
      with None \<open>x \<in> set (map fst (fn_params uf))\<close> show ?thesis
        by (simp add: apply_dt_def Let_def cong: sum.case_cong)
    qed
  qed
qed

text \<open>
  Claim C7, counterexample. \<^verbatim>\<open>@dt("x", g, is_workflow=True)\<close> is declared on the submitter on
  \<^verbatim>\<open>def f(x): return x\<close>, with \<^verbatim>\<open>g(v) = v + 1\<close>. The call \<^verbatim>\<open>f(x=5)\<close> passes \<open>x\<close> by keyword and
  no positional argument: line 131 raises \<^verbatim>\<open>PyCOMPSsException\<close> and \<open>f\<close> is not called at all,
  where the claim has \<open>f\<close> receive \<^verbatim>\<open>x = g(5) = 6\<close>.
\<close>

theorem dt_keyword_only_counterexample:
  "DataTransformation_init accept_arguments SUBMITTER [NameArg ''x'', FuncArg g_increment]
     [(''is_workflow'', PBool True)] =
     Inr (dt_declared True [NameArg ''x'', FuncArg g_increment] [(''is_workflow'', PBool True)]) \<and>
   fst (dt_f ''is_workflow'' transform_now SUBMITTER False f_identity []
          (no_kwargs\<lparr> kw_entries := [(''x'', PInt 5)] \<rparr>)
          (dt_declared True [NameArg ''x'', FuncArg g_increment] [(''is_workflow'', PBool True)])) =
     Inl (PyCOMPSsException ''Missing arguments in DT decorator.'') \<and>
   fn_body f_identity [] (no_kwargs\<lparr> kw_entries := [(''x'', PInt 6)] \<rparr>) = Inr (PInt 6)"
  by (simp add: DataTransformation_init_def in_pycompss_def in_master_def dt_declared_def dt_f_def
        call_dt_def f_identity_def Let_def accept_arguments_def no_kwargs_def)

text \<open>
  Claim C7, amended. Let a function be decorated in scope with a data transformation on
  parameter \<open>x\<close> with transform \<open>g\<close> (the stored decorator arguments), and be called on the
  submitter with at least one positional argument and no \<^verbatim>\<open>dt\<close> keyword. The new value is
  \<open>g\<close> applied to the resolved value (when the decorator is flagged as a workflow) or the
  task-derived result of the transform task on it. The value is resolved from the keyword
  arguments if \<open>x\<close> is among them, otherwise from the positional argument at the index of
  \<open>x\<close> in the signature, otherwise from the declared default of \<open>x\<close>; the wrapped function is
  called with the new value in place of the resolved one (at the same position, or under
  the keyword \<open>x\<close>), every other argument as passed. An exception of the transform
  propagates; a name that is neither a keyword of the call nor in the signature raises.
\<close>

theorem dt_substitution:
  assumes "dt_scope self" and "in_master ctx" and "\<not> dt_core_element_configured self"
    and "args \<noteq> []" and "kw_dt kwargs = None"
    and "dt_args self = NameArg x # FuncArg g # rest"
  shows "fst (dt_f lbl tr ctx nesting uf args kwargs self) =
    (let new_value = (\<lambda>v. if workflow_flag lbl (dt_kwargs self)
                           then g v (pop_label lbl (dt_kwargs self))
                           else tr v (FuncArg g) (pop_label lbl (dt_kwargs self)));
         i = index_of x (map fst (fn_params uf))
     in case map_of (kw_entries kwargs) x of
          Some v \<Rightarrow>
            (case new_value v of
               Inl e \<Rightarrow> Inl e
             | Inr nv \<Rightarrow>
                 fn_body uf args (kwargs\<lparr> kw_entries := dict_set x nv (kw_entries kwargs) \<rparr>))
        | None \<Rightarrow>
            if x \<in> set (map fst (fn_params uf)) then
              (if i < length args then
                 (case new_value (args ! i) of
                    Inl e \<Rightarrow> Inl e
                  | Inr nv \<Rightarrow> fn_body uf (args[i := nv]) kwargs)
               else
                 (case new_value (case map_of (fn_params uf) x of
                                    Some (Some d) \<Rightarrow> d | _ \<Rightarrow> PEmpty) of
                    Inl e \<Rightarrow> Inl e
                  | Inr nv \<Rightarrow>
                      fn_body uf args
                        (kwargs\<lparr> kw_entries := dict_set x nv (kw_entries kwargs) \<rparr>)))
            else Inl (Exception ''Wrong Param Name in DT''))"
proof -
  from assms(6) have two: "\<not> length (dt_args self) < 2"
    and a0: "dt_args self ! 0 = NameArg x" and a1: "dt_args self ! 1 = FuncArg g"
    by simp_all
  let ?nv = "dt_new_value tr (workflow_flag lbl (dt_kwargs self)) (FuncArg g)
               (pop_label lbl (dt_kwargs self))"
  let ?i = "index_of x (map fst (fn_params uf))"
  let ?d = "case map_of (fn_params uf) x of Some (Some d) \<Rightarrow> d | _ \<Rightarrow> PEmpty"
  have eq: "?nv = (\<lambda>v. if workflow_flag lbl (dt_kwargs self)
                         then g v (pop_label lbl (dt_kwargs self))
                         else tr v (FuncArg g) (pop_label lbl (dt_kwargs self)))"
    by (rule ext) (simp only: dt_new_value_def call_dec_def dec_arg.case)
  have step: "fst (dt_f lbl tr ctx nesting uf args kwargs self) =
      (case fst (apply_dt lbl tr uf (NameArg x) (FuncArg g) (dt_kwargs self) args
                   (kw_entries kwargs)) of
         Inl e \<Rightarrow> Inl e
       | Inr (args1, kw1) \<Rightarrow> fn_body uf args1 (kwargs\<lparr> kw_entries := kw1 \<rparr>))"
    using dt_f_stored_args [OF assms(1-5) two, of lbl tr nesting uf] by (simp only: a0 a1)
  have main: "fst (dt_f lbl tr ctx nesting uf args kwargs self) =
    (let new_value = ?nv; i = ?i
     in case map_of (kw_entries kwargs) x of
          Some v \<Rightarrow>
            (case new_value v of
               Inl e \<Rightarrow> Inl e
             | Inr nv \<Rightarrow>
                 fn_body uf args (kwargs\<lparr> kw_entries := dict_set x nv (kw_entries kwargs) \<rparr>))
        | None \<Rightarrow>
            if x \<in> set (map fst (fn_params uf)) then
              (if i < length args then
                 (case new_value (args ! i) of
                    Inl e \<Rightarrow> Inl e
                  | Inr nv \<Rightarrow> fn_body uf (args[i := nv]) kwargs)
               else
                 (case new_value (case map_of (fn_params uf) x of
                                    Some (Some d) \<Rightarrow> d | _ \<Rightarrow> PEmpty) of
                    Inl e \<Rightarrow> Inl e
                  | Inr nv \<Rightarrow>
                      fn_body uf args
                        (kwargs\<lparr> kw_entries := dict_set x nv (kw_entries kwargs) \<rparr>)))
            else Inl (Exception ''Wrong Param Name in DT''))"
  proof (cases "map_of (kw_entries kwargs) x")
    case (Some v)
    then show ?thesis
      by (cases "?nv v") (simp_all add: step apply_dt_named Let_def)
  next
    case None
    show ?thesis
    proof (cases "x \<in> set (map fst (fn_params uf))")
      case False
      with None show ?thesis
        by (simp add: step apply_dt_named Let_def)
    next
      case True
      show ?thesis
      proof (cases "?i < length args")
        case inside: True
        with None True show ?thesis
          by (cases "?nv (args ! ?i)") (simp_all add: step apply_dt_named Let_def)
      next
        case outside: False
        with None True show ?thesis
          by (cases "?nv ?d") (simp_all add: step apply_dt_named Let_def)
      qed
    qed
  qed
  show ?thesis
    by (simp only: main eq)
qed

text \<open>
  Three calls under \<^verbatim>\<open>@dt("x", g, is_workflow=True)\<close> with \<^verbatim>\<open>g(v) = v + 1\<close>: \<^verbatim>\<open>f(5)\<close> on
  \<^verbatim>\<open>def f(x)\<close> (by position: \<open>f\<close> receives 6), and \<^verbatim>\<open>f(1, x=5)\<close> and \<^verbatim>\<open>f(1)\<close> on
  \<^verbatim>\<open>def f(y, x=7)\<close> (by keyword: 6; by default: 8).
\<close>

theorem dt_substitution_witness:
  "dt_scope (dt_declared True [NameArg ''x'', FuncArg g_increment] [(''is_workflow'', PBool True)]) \<and>
   in_master SUBMITTER \<and>
   \<not> dt_core_element_configured
        (dt_declared True [NameArg ''x'', FuncArg g_increment] [(''is_workflow'', PBool True)]) \<and>
   [PInt 5] \<noteq> [] \<and> kw_dt no_kwargs = None \<and>
   dt_args (dt_declared True [NameArg ''x'', FuncArg g_increment] [(''is_workflow'', PBool True)]) =
     NameArg ''x'' # FuncArg g_increment # [] \<and>
   fst (dt_f ''is_workflow'' transform_now SUBMITTER False f_identity [PInt 5] no_kwargs
          (dt_declared True [NameArg ''x'', FuncArg g_increment] [(''is_workflow'', PBool True)])) =
     Inr (PInt 6) \<and>
   fst (dt_f ''is_workflow'' transform_now SUBMITTER False f_default [PInt 1]
          (no_kwargs\<lparr> kw_entries := [(''x'', PInt 5)] \<rparr>)
          (dt_declared True [NameArg ''x'', FuncArg g_increment] [(''is_workflow'', PBool True)])) =
     Inr (PInt 6) \<and>
   fst (dt_f ''is_workflow'' transform_now SUBMITTER False f_default [PInt 1] no_kwargs
          (dt_declared True [NameArg ''x'', FuncArg g_increment] [(''is_workflow'', PBool True)])) =
     Inr (PInt 8)"
proof -
  let ?self = "dt_declared True [NameArg ''x'', FuncArg g_increment] [(''is_workflow'', PBool True)]"
  have h1: "dt_scope ?self" by (simp add: dt_declared_def)
  have h2: "in_master SUBMITTER" by (simp add: in_master_def)
  have h3: "\<not> dt_core_element_configured ?self" by (simp add: dt_declared_def)
  have h4: "[PInt 5] \<noteq> []" and h4': "[PInt 1] \<noteq> []" by simp_all
  have h5: "kw_dt no_kwargs = None" and h5': "kw_dt (no_kwargs\<lparr> kw_entries := [(''x'', PInt 5)] \<rparr>) = None"
    by (simp_all add: no_kwargs_def)
  have h6: "dt_args ?self = NameArg ''x'' # FuncArg g_increment # []" by (simp add: dt_declared_def)
  have flag: "workflow_flag ''is_workflow'' (dt_kwargs ?self)"
    by (simp add: workflow_flag_def is_workflow_value_def dt_declared_def)
  have a: "fst (dt_f ''is_workflow'' transform_now SUBMITTER False f_identity [PInt 5] no_kwargs ?self) =
             Inr (PInt 6)"
    using dt_substitution [OF h1 h2 h3 h4 h5 h6, where lbl = "''is_workflow''"
            and tr = transform_now and nesting = False and uf = f_identity]
    by (simp add: flag f_identity_def g_increment_def no_kwargs_def)
  have b: "fst (dt_f ''is_workflow'' transform_now SUBMITTER False f_default [PInt 1]
                  (no_kwargs\<lparr> kw_entries := [(''x'', PInt 5)] \<rparr>) ?self) = Inr (PInt 6)"
    using dt_substitution [OF h1 h2 h3 h4' h5' h6, where lbl = "''is_workflow''"
            and tr = transform_now and nesting = False and uf = f_default]
    by (simp add: flag f_default_def g_increment_def no_kwargs_def)
  have c: "fst (dt_f ''is_workflow'' transform_now SUBMITTER False f_default [PInt 1] no_kwargs ?self) =
             Inr (PInt 8)"
    using dt_substitution [OF h1 h2 h3 h4' h5 h6, where lbl = "''is_workflow''"
            and tr = transform_now and nesting = False and uf = f_default]
    by (simp add: flag f_default_def g_increment_def no_kwargs_def)
  from h1 h2 h3 h4 h5 h6 a b c show ?thesis by simp
qed

text \<open>
  Claim C8, counterexample. \<^verbatim>\<open>@dt("x", g, is_workflow=True)\<close> is declared on the submitter on
  \<^verbatim>\<open>def h(a, **kw): return kw["x"]\<close>, whose signature has the parameters \<open>a\<close> and \<open>kw\<close> and no
  parameter \<open>x\<close>. The first call \<^verbatim>\<open>h(1, x=2)\<close> raises nothing: \<open>x\<close> is found among the keyword
  arguments, the signature is not consulted, and \<open>h\<close> returns \<^verbatim>\<open>g(2) = 3\<close>.
\<close>

theorem dt_keyword_unknown_counterexample:
  "''x'' \<notin> set (map fst (fn_params h_keywords)) \<and>
   fst (dt_f ''is_workflow'' transform_now SUBMITTER False h_keywords [PInt 1]
          (no_kwargs\<lparr> kw_entries := [(''x'', PInt 2)] \<rparr>)
          (dt_declared True [NameArg ''x'', FuncArg g_increment] [(''is_workflow'', PBool True)])) =
     Inr (PInt 3)"
  by (simp add: in_master_def dt_declared_def dt_f_def call_dt_def apply_dt_def dt_new_value_def
        call_dec_def workflow_flag_def pop_label_def has_key_def dict_del_def is_workflow_value_def
        h_keywords_def g_increment_def Let_def no_kwargs_def)

text \<open>
  Claim C8, amended. On the first submitter call of a function under a data
  transformation decorator declared in scope, with no \<^verbatim>\<open>dt\<close> keyword in the call: if the
  decorator stores fewer than two arguments the call raises (\<^verbatim>\<open>PyCOMPSsException\<close>, the
  specification's TaskDefinitionError); if the named target parameter is not among the
  keyword arguments of the call and is not in the signature of the wrapped function, the
  call raises (\<^verbatim>\<open>Exception("Wrong Param Name in DT")\<close>, or the \<^verbatim>\<open>PyCOMPSsException\<close> of line 131
  when the call has no positional argument).
\<close>

theorem dt_definition_errors:
  assumes "dt_scope self" and "in_master ctx" and "\<not> dt_core_element_configured self"
    and "kw_dt kwargs = None"
  shows "(length (dt_args self) < 2 \<longrightarrow>
            fst (dt_f lbl tr ctx nesting uf args kwargs self) =
              Inl (PyCOMPSsException ''Missing arguments in DT decorator.'')) \<and>
         (dt_args self = NameArg x # func # rest \<and> map_of (kw_entries kwargs) x = None \<and>
          x \<notin> set (map fst (fn_params uf)) \<longrightarrow>
            fst (dt_f lbl tr ctx nesting uf args kwargs self) =
              Inl (if args = [] then PyCOMPSsException ''Missing arguments in DT decorator.''
                   else Exception ''Wrong Param Name in DT''))"
proof (intro conjI impI)
  assume "length (dt_args self) < 2"
  with assms show "fst (dt_f lbl tr ctx nesting uf args kwargs self) =
      Inl (PyCOMPSsException ''Missing arguments in DT decorator.'')"
    by (simp add: dt_f_def call_dt_def Let_def)
next
  assume h: "dt_args self = NameArg x # func # rest \<and> map_of (kw_entries kwargs) x = None \<and>
          x \<notin> set (map fst (fn_params uf))"
  then have two: "\<not> length (dt_args self) < 2" and a0: "dt_args self ! 0 = NameArg x"
    by simp_all
  show "fst (dt_f lbl tr ctx nesting uf args kwargs self) =
      Inl (if args = [] then PyCOMPSsException ''Missing arguments in DT decorator.''
           else Exception ''Wrong Param Name in DT'')"
  proof (cases "args = []")
    case True
    with assms show ?thesis
      by (simp add: dt_f_def call_dt_def Let_def)
  next
    case False
    with h show ?thesis
      by (simp add: dt_f_stored_args [OF assms(1-3) False assms(4) two] a0 apply_dt_named)
  qed
qed



text \<open>
  Two first calls \<^verbatim>\<open>f(5)\<close> on \<^verbatim>\<open>def f(x)\<close>: under \<^verbatim>\<open>@dt()\<close>, which stores no argument, and under
  \<^verbatim>\<open>@dt("z", g)\<close>, which names a parameter that \<open>f\<close> does not have.
\<close>

theorem dt_definition_errors_witness:
  "dt_scope (dt_declared True [] []) \<and> in_master SUBMITTER \<and>
   \<not> dt_core_element_configured (dt_declared True [] []) \<and> kw_dt no_kwargs = None \<and>
   length (dt_args (dt_declared True [] [])) < 2 \<and>
   fst (dt_f ''is_workflow'' transform_now SUBMITTER False f_identity [PInt 5] no_kwargs
          (dt_declared True [] [])) =
     Inl (PyCOMPSsException ''Missing arguments in DT decorator.'') \<and>
   dt_args (dt_declared True [NameArg ''z'', FuncArg g_increment] []) =
     NameArg ''z'' # FuncArg g_increment # [] \<and>
   map_of (kw_entries no_kwargs) ''z'' = None \<and>
   ''z'' \<notin> set (map fst (fn_params f_identity)) \<and>
   fst (dt_f ''is_workflow'' transform_now SUBMITTER False f_identity [PInt 5] no_kwargs
          (dt_declared True [NameArg ''z'', FuncArg g_increment] [])) =
     Inl (Exception ''Wrong Param Name in DT'')"
proof -
  have m: "in_master SUBMITTER" by (simp add: in_master_def)
  have k: "kw_dt no_kwargs = None" by (simp add: no_kwargs_def)
  have s0: "dt_scope (dt_declared True [] [])"
    and c0: "\<not> dt_core_element_configured (dt_declared True [] [])"
    and l0: "length (dt_args (dt_declared True [] [])) < 2"
    by (simp_all add: dt_declared_def)
  have s1: "dt_scope (dt_declared True [NameArg ''z'', FuncArg g_increment] [])"
    and c1: "\<not> dt_core_element_configured (dt_declared True [NameArg ''z'', FuncArg g_increment] [])"
    and a1: "dt_args (dt_declared True [NameArg ''z'', FuncArg g_increment] []) =
               NameArg ''z'' # FuncArg g_increment # []"
    by (simp_all add: dt_declared_def)
  have z1: "map_of (kw_entries no_kwargs) ''z'' = None"
    and z2: "''z'' \<notin> set (map fst (fn_params f_identity))"
    by (simp_all add: no_kwargs_def f_identity_def)
  have a: "fst (dt_f ''is_workflow'' transform_now SUBMITTER False f_identity [PInt 5] no_kwargs
                  (dt_declared True [] [])) =
             Inl (PyCOMPSsException ''Missing arguments in DT decorator.'')"
    using dt_definition_errors [OF s0 m c0 k, where uf = f_identity
            and lbl = "''is_workflow''" and tr = transform_now and nesting = False
            and args = "[PInt 5]"] l0
    by simp
  have b: "fst (dt_f ''is_workflow'' transform_now SUBMITTER False f_identity [PInt 5] no_kwargs
                  (dt_declared True [NameArg ''z'', FuncArg g_increment] [])) =
             Inl (Exception ''Wrong Param Name in DT'')"
    using dt_definition_errors [OF s1 m c1 k, where x = "''z''" and func = "FuncArg g_increment"
            and rest = "[]" and uf = f_identity and lbl = "''is_workflow''" and tr = transform_now
            and nesting = False and args = "[PInt 5]"] a1 z1 z2
    by simp
  from m k s0 c0 l0 a a1 z1 z2 b show ?thesis by simp
qed

end
